theory Spec2Isabelle
  imports Main "HOL-Library.Word"
begin

section \<open>The emulated atomics of src/backend/port/atomics.c\<close>

text \<open>
  The file holds five functions: the fallback memory barrier \<^verbatim>\<open>pg_spinlock_barrier\<close>,
  the fallback compiler barrier \<^verbatim>\<open>pg_extern_compiler_barrier\<close>, and the three
  operations on a spinlock-protected 64-bit cell, \<^verbatim>\<open>pg_atomic_init_u64_impl\<close>,
  \<^verbatim>\<open>pg_atomic_compare_exchange_u64_impl\<close> and \<^verbatim>\<open>pg_atomic_fetch_add_u64_impl\<close>.
  They work through pointers, so the model passes an explicit memory around.
\<close>

subsection \<open>Memory\<close>

type_synonym uint64 = "64 word"

text \<open>
  \<^verbatim>\<open>int64\<close>: the same 64 bits, read as two's complement through \<open>sint\<close>.
\<close>

type_synonym int64 = "64 word"

type_synonym pid_t = int

text \<open>
  A \<^verbatim>\<open>pg_atomic_uint64 *\<close> is the address of a cell. A \<^verbatim>\<open>uint64 *\<close> points at a 64-bit
  object: a caller's own (\<open>Object\<close>) or, for a caller that casts the \<^verbatim>\<open>volatile\<close>
  qualifier of the cell away, the \<^verbatim>\<open>value\<close> field of a cell (\<open>Value_of\<close>). The operations
  are modelled on both; a caller that passes the address of a variable of its own as
  \<^verbatim>\<open>expected\<close> passes an \<open>Object\<close>.
\<close>

type_synonym atomic_ptr = nat

datatype uint64_ptr = Value_of atomic_ptr | Object nat

text \<open>
  Modelled from the spec: the type \<^verbatim>\<open>slock_t\<close> of storage/spin.h, which is not among
  the sources. The spec gives the guard two states, unlocked and locked, and one holder
  at a time.
\<close>

datatype slock_t = Unlocked | Locked

text \<open>
  The events a run leaves behind: a guard taken or handed back, a system call issued.
\<close>

datatype lock_event = Acquire atomic_ptr | Release atomic_ptr

datatype syscall = Kill pid_t int

fun target :: "syscall \<Rightarrow> pid_t" where
  "target (Kill pid sig) = pid"

text \<open>
  The state a call runs in. \<open>sema\<close> and \<open>u64\<close> are the memory: the \<^verbatim>\<open>sema\<close> field of
  every cell and the contents of every 64-bit object, the \<^verbatim>\<open>value\<close> field of cell \<open>p\<close>
  being the object \<open>Value_of p\<close> (the struct \<^verbatim>\<open>pg_atomic_uint64\<close> is declared outside the
  sources; the operations use these two fields of it, the spec's guard and value).
  \<open>PostmasterPid\<close> is the global of that name (miscadmin.h); \<open>caller_pid\<close> is the process
  identifier of the process that runs the call. \<open>lock_log\<close> lists the guard operations
  completed so far, \<open>stores\<close> the stores to 64-bit objects made so far (where and what)
  and \<open>syscalls\<close> the system calls issued so far, oldest first; none of the three is
  memory of the program, they record what it did.
\<close>

record state =
  sema :: "atomic_ptr \<Rightarrow> slock_t"
  u64 :: "uint64_ptr \<Rightarrow> uint64"
  PostmasterPid :: pid_t
  caller_pid :: pid_t
  lock_log :: "lock_event list"
  stores :: "(uint64_ptr \<times> uint64) list"
  syscalls :: "syscall list"

text \<open>A store \<^verbatim>\<open>*p = v\<close>: the object changes and the store is noted.\<close>

definition store_u64 :: "state \<Rightarrow> uint64_ptr \<Rightarrow> uint64 \<Rightarrow> state" where
  "store_u64 s p v = s\<lparr>u64 := (u64 s)(p := v), stores := stores s @ [(p, v)]\<rparr>"

text \<open>
  Modelled from the spec: the macro \<^verbatim>\<open>SpinLockInit\<close> of storage/spin.h, which is not
  among the sources. Initialisation sets the guard to unlocked.
\<close>

definition SpinLockInit :: "state \<Rightarrow> atomic_ptr \<Rightarrow> state" where
  "SpinLockInit s lock = s\<lparr>sema := (sema s)(lock := Unlocked)\<rparr>"

text \<open>
  Modelled from the spec: what is inside \<^verbatim>\<open>SpinLockAcquire\<close>, which the spec leaves
  opaque but for being strictly exclusive. One test of the guard: when it is free it is
  taken, in one indivisible step, and the log notes it; when it is held nothing happens
  and the caller learns so.
\<close>

definition acquired :: "state \<Rightarrow> atomic_ptr \<Rightarrow> state" where
  "acquired s lock =
     s\<lparr>sema := (sema s)(lock := Locked), lock_log := lock_log s @ [Acquire lock]\<rparr>"

definition try_acquire :: "state \<Rightarrow> atomic_ptr \<Rightarrow> state option" where
  "try_acquire s lock = (if sema s lock = Unlocked then Some (acquired s lock) else None)"

text \<open>
  Modelled from the spec: the macro \<^verbatim>\<open>SpinLockAcquire\<close> of storage/spin.h, which is not
  among the sources. Acquisition is blocking, a busy-wait with no timeout: test the
  guard, go on when it was taken, test again otherwise. Run alone on a guard that is
  held, the loop never ends, and the result is \<open>None\<close>.
\<close>

partial_function (option) SpinLockAcquire :: "state \<Rightarrow> atomic_ptr \<Rightarrow> state option" where
  "SpinLockAcquire s lock =
     (case try_acquire s lock of
        Some s' \<Rightarrow> Some s'
      | None \<Rightarrow> SpinLockAcquire s lock)"

text \<open>
  Modelled from the spec: the macro \<^verbatim>\<open>SpinLockRelease\<close> of storage/spin.h, which is not
  among the sources. Release sets the guard to unlocked.
\<close>

definition SpinLockRelease :: "state \<Rightarrow> atomic_ptr \<Rightarrow> state" where
  "SpinLockRelease s lock =
     s\<lparr>sema := (sema s)(lock := Unlocked), lock_log := lock_log s @ [Release lock]\<rparr>"

subsection \<open>The barriers\<close>

text \<open>
  The system call \<^verbatim>\<open>kill(pid, sig)\<close>: the call is issued and the operating system
  answers with an \<^verbatim>\<open>int\<close>. The answer is whatever \<open>os\<close> says; the model puts no
  constraint on it. The call changes nothing in the memory of the caller.
\<close>

definition kill :: "(pid_t \<Rightarrow> int \<Rightarrow> int) \<Rightarrow> state \<Rightarrow> pid_t \<Rightarrow> int \<Rightarrow> state \<times> int" where
  "kill os s pid sig = (s\<lparr>syscalls := syscalls s @ [Kill pid sig]\<rparr>, os pid sig)"

text \<open>\<^verbatim>\<open>(void) kill(PostmasterPid, 0);\<close>\<close>

definition pg_spinlock_barrier :: "(pid_t \<Rightarrow> int \<Rightarrow> int) \<Rightarrow> state \<Rightarrow> state" where
  "pg_spinlock_barrier os s = fst (kill os s (PostmasterPid s) 0)"

text \<open>\<^verbatim>\<open>/* do nothing */\<close>\<close>

definition pg_extern_compiler_barrier :: "state \<Rightarrow> state" where
  "pg_extern_compiler_barrier s = s"

subsection \<open>The cell operations\<close>

text \<open>
  \<^verbatim>\<open>StaticAssertDecl\<close> is checked by the compiler and leaves nothing to run, so
  the body is the two statements that follow it.
\<close>

definition pg_atomic_init_u64_impl :: "state \<Rightarrow> atomic_ptr \<Rightarrow> uint64 \<Rightarrow> state" where
  "pg_atomic_init_u64_impl s ptr val =
     (let s1 = SpinLockInit s ptr
      in store_u64 s1 (Value_of ptr) val)"

text \<open>
  The statements of the body in their order: acquire, compare into \<^verbatim>\<open>ret\<close>, store the
  cell's value through \<^verbatim>\<open>expected\<close>, store \<^verbatim>\<open>newval\<close> when \<^verbatim>\<open>ret\<close>, release, return
  \<^verbatim>\<open>ret\<close>.
\<close>

definition pg_atomic_compare_exchange_u64_impl ::
  "state \<Rightarrow> atomic_ptr \<Rightarrow> uint64_ptr \<Rightarrow> uint64 \<Rightarrow> (state \<times> bool) option" where
  "pg_atomic_compare_exchange_u64_impl s ptr expected newval =
     (case SpinLockAcquire s ptr of
        None \<Rightarrow> None
      | Some s1 \<Rightarrow>
          let ret = (u64 s1 (Value_of ptr) = u64 s1 expected);
              s2 = store_u64 s1 expected (u64 s1 (Value_of ptr));
              s3 = (if ret then store_u64 s2 (Value_of ptr) newval else s2);
              s4 = SpinLockRelease s3 ptr
          in Some (s4, ret))"

text \<open>
  \<^verbatim>\<open>ptr->value += add_\<close> adds an \<^verbatim>\<open>int64\<close> to a \<^verbatim>\<open>uint64\<close>: C converts the signed
  operand to \<^verbatim>\<open>uint64\<close> (its value modulo \<open>2 ^ 64\<close>) and adds modulo \<open>2 ^ 64\<close>.
  The parameters \<^verbatim>\<open>val_\<close> and \<^verbatim>\<open>add_\<close> of the source are \<open>val\<close> and \<open>add\<close> here.
\<close>

definition pg_atomic_fetch_add_u64_impl ::
  "state \<Rightarrow> atomic_ptr \<Rightarrow> int64 \<Rightarrow> (state \<times> uint64) option" where
  "pg_atomic_fetch_add_u64_impl s ptr add =
     (case SpinLockAcquire s ptr of
        None \<Rightarrow> None
      | Some s1 \<Rightarrow>
          let oldval = u64 s1 (Value_of ptr);
              s2 = store_u64 s1 (Value_of ptr)
                     (u64 s1 (Value_of ptr) + (word_of_int (sint add) :: uint64));
              s3 = SpinLockRelease s2 ptr
          in Some (s3, oldval))"

text \<open>A state to evaluate on: every guard free, every 64-bit object holding \<open>v\<close>.\<close>

definition fresh :: "uint64 \<Rightarrow> pid_t \<Rightarrow> pid_t \<Rightarrow> state" where
  "fresh v postmaster self =
     \<lparr>sema = (\<lambda>_. Unlocked), u64 = (\<lambda>_. v), PostmasterPid = postmaster,
      caller_pid = self, lock_log = [], stores = [], syscalls = []\<rparr>"

text \<open>
  The file has no read operation of its own; a cell is read by adding zero to it.
\<close>

definition read_u64 :: "state \<Rightarrow> atomic_ptr \<Rightarrow> uint64 option" where
  "read_u64 s ptr = map_option snd (pg_atomic_fetch_add_u64_impl s ptr 0)"

section \<open>Several callers of one cell\<close>


















subsection \<open>Relating an interleaved run to a serial one\<close>








section \<open>The busy-wait\<close>

lemma SpinLockAcquire_Unlocked:
  "sema s lock = Unlocked \<Longrightarrow> SpinLockAcquire s lock = Some (acquired s lock)"
  by (subst SpinLockAcquire.simps) (simp add: try_acquire_def)

lemma SpinLockAcquire_Some_Unlocked:
  assumes "SpinLockAcquire s lock = Some s'"
  shows "sema s lock = Unlocked"
  by (rule SpinLockAcquire.raw_induct [OF _ assms])
    (simp add: try_acquire_def split: if_splits option.splits)

lemma SpinLockAcquire_Locked:
  "sema s lock = Locked \<Longrightarrow> SpinLockAcquire s lock = None"
proof (cases "SpinLockAcquire s lock")
  case None
  then show ?thesis .
next
  case (Some s')
  assume "sema s lock = Locked"
  with SpinLockAcquire_Some_Unlocked [OF Some] show ?thesis by simp
qed

section \<open>The operations on a free and on a held guard\<close>

lemma compare_exchange_Unlocked:
  assumes "sema s ptr = Unlocked"
  shows "pg_atomic_compare_exchange_u64_impl s ptr expected newval =
     Some (s\<lparr>u64 := (if u64 s (Value_of ptr) = u64 s expected
                      then ((u64 s)(expected := u64 s (Value_of ptr)))(Value_of ptr := newval)
                      else (u64 s)(expected := u64 s (Value_of ptr))),
              lock_log := lock_log s @ [Acquire ptr, Release ptr],
              stores := stores s @ (expected, u64 s (Value_of ptr)) #
                 (if u64 s (Value_of ptr) = u64 s expected then [(Value_of ptr, newval)] else [])\<rparr>,
           u64 s (Value_of ptr) = u64 s expected)"
proof -
  have "(sema s)(ptr := Unlocked) = sema s"
    using assms by (simp add: fun_upd_idem)
  then show ?thesis
    by (simp add: pg_atomic_compare_exchange_u64_impl_def SpinLockAcquire_Unlocked [OF assms]
        SpinLockRelease_def acquired_def store_u64_def Let_def)
qed

lemma compare_exchange_Locked:
  "sema s ptr = Locked \<Longrightarrow> pg_atomic_compare_exchange_u64_impl s ptr expected newval = None"
  by (simp add: pg_atomic_compare_exchange_u64_impl_def SpinLockAcquire_Locked)

lemma fetch_add_Unlocked:
  assumes "sema s ptr = Unlocked"
  shows "pg_atomic_fetch_add_u64_impl s ptr add =
     Some (s\<lparr>u64 := (u64 s)(Value_of ptr := u64 s (Value_of ptr) + word_of_int (sint add)),
              lock_log := lock_log s @ [Acquire ptr, Release ptr],
              stores := stores s @
                 [(Value_of ptr, u64 s (Value_of ptr) + word_of_int (sint add))]\<rparr>,
           u64 s (Value_of ptr))"
proof -
  have "(sema s)(ptr := Unlocked) = sema s"
    using assms by (simp add: fun_upd_idem)
  then show ?thesis
    by (simp add: pg_atomic_fetch_add_u64_impl_def SpinLockAcquire_Unlocked [OF assms]
        SpinLockRelease_def acquired_def store_u64_def Let_def)
qed

lemma fetch_add_Locked:
  "sema s ptr = Locked \<Longrightarrow> pg_atomic_fetch_add_u64_impl s ptr add = None"
  by (simp add: pg_atomic_fetch_add_u64_impl_def SpinLockAcquire_Locked)

lemma compare_exchange_Some_Unlocked:
  "pg_atomic_compare_exchange_u64_impl s ptr expected newval = Some r \<Longrightarrow> sema s ptr = Unlocked"
  by (cases "sema s ptr") (simp_all add: compare_exchange_Locked)

lemma fetch_add_Some_Unlocked:
  "pg_atomic_fetch_add_u64_impl s ptr add = Some r \<Longrightarrow> sema s ptr = Unlocked"
  by (cases "sema s ptr") (simp_all add: fetch_add_Locked)

section \<open>Compare and exchange\<close>

text \<open>
  C1. In every state, whatever the guard is at the call: whenever
  \<^verbatim>\<open>pg_atomic_compare_exchange_u64_impl\<close> returns, it has returned true and left
  \<^verbatim>\<open>newval\<close> in the cell exactly when the cell's value equalled \<^verbatim>\<open>*expected\<close>, and it
  has returned false exactly when the two differed, so no failure is spurious: a held
  guard is never a reason to return false. On a free guard the call does return.
\<close>

theorem compare_exchange_strong:
  "(sema s ptr = Unlocked \<longrightarrow>
      (\<exists>s' ret. pg_atomic_compare_exchange_u64_impl s ptr expected newval = Some (s', ret))) \<and>
   (\<forall>s' ret. pg_atomic_compare_exchange_u64_impl s ptr expected newval = Some (s', ret) \<longrightarrow>
      ((ret \<and> u64 s' (Value_of ptr) = newval) \<longleftrightarrow> u64 s (Value_of ptr) = u64 s expected) \<and>
      (\<not> ret \<longleftrightarrow> u64 s (Value_of ptr) \<noteq> u64 s expected))"
proof (intro conjI impI allI)
  assume "sema s ptr = Unlocked"
  then show "\<exists>s' ret. pg_atomic_compare_exchange_u64_impl s ptr expected newval = Some (s', ret)"
    by (simp add: compare_exchange_Unlocked)
next
  fix s' ret
  assume r: "pg_atomic_compare_exchange_u64_impl s ptr expected newval = Some (s', ret)"
  then have u: "sema s ptr = Unlocked"
    by (rule compare_exchange_Some_Unlocked)
  from r [unfolded compare_exchange_Unlocked [OF u]]
  show "(ret \<and> u64 s' (Value_of ptr) = newval) \<longleftrightarrow> u64 s (Value_of ptr) = u64 s expected"
    by auto
  from r [unfolded compare_exchange_Unlocked [OF u]]
  show "\<not> ret \<longleftrightarrow> u64 s (Value_of ptr) \<noteq> u64 s expected"
    by auto
qed

theorem compare_exchange_strong_witness:
  "sema (fresh 5 1 2) 0 = Unlocked \<and>
   (\<exists>s'. pg_atomic_compare_exchange_u64_impl (fresh 5 1 2) 0 (Object 0) 7 = Some (s', True) \<and>
         u64 s' (Value_of 0) = 7) \<and>
   u64 (fresh 5 1 2) (Value_of 0) = u64 (fresh 5 1 2) (Object 0)"
proof -
  have u: "sema (fresh 5 1 2) 0 = Unlocked"
    by (simp add: fresh_def)
  note c = compare_exchange_strong [of "fresh 5 1 2" 0 "Object 0" 7]
  from c u obtain s' ret
    where r: "pg_atomic_compare_exchange_u64_impl (fresh 5 1 2) 0 (Object 0) 7 = Some (s', ret)"
    by blast
  have e: "u64 (fresh 5 1 2) (Value_of 0) = u64 (fresh 5 1 2) (Object 0)"
    by (simp add: fresh_def)
  from c r e have "ret" and v: "u64 s' (Value_of 0) = 7"
    by blast+
  with r have "pg_atomic_compare_exchange_u64_impl (fresh 5 1 2) 0 (Object 0) 7 = Some (s', True)"
    by simp
  with v u e show ?thesis
    by blast
qed

text \<open>
  C2. Whenever the call returns false, the cell's value is what it was before the call
  and \<^verbatim>\<open>*expected\<close> holds that value.
\<close>

theorem compare_exchange_failure:
  assumes "pg_atomic_compare_exchange_u64_impl s ptr expected newval = Some (s', False)"
  shows "u64 s' (Value_of ptr) = u64 s (Value_of ptr) \<and> u64 s' expected = u64 s (Value_of ptr)"
proof -
  have "sema s ptr = Unlocked"
    using assms by (rule compare_exchange_Some_Unlocked)
  from assms [unfolded compare_exchange_Unlocked [OF this]] show ?thesis
    by (auto split: if_splits)
qed

theorem compare_exchange_failure_witness:
  "pg_atomic_compare_exchange_u64_impl ((fresh 5 1 2)\<lparr>u64 := (u64 (fresh 5 1 2))(Object 0 := 6)\<rparr>) 0 (Object 0) 7
     = Some ((fresh 5 1 2)\<lparr>u64 := (u64 (fresh 5 1 2))(Object 0 := 5),
               lock_log := [Acquire 0, Release 0], stores := [(Object 0, 5)]\<rparr>, False)
   \<and> u64 ((fresh 5 1 2)\<lparr>u64 := (u64 (fresh 5 1 2))(Object 0 := 5),
               lock_log := [Acquire 0, Release 0], stores := [(Object 0, 5)]\<rparr>) (Value_of 0) = 5
   \<and> u64 ((fresh 5 1 2)\<lparr>u64 := (u64 (fresh 5 1 2))(Object 0 := 5),
               lock_log := [Acquire 0, Release 0], stores := [(Object 0, 5)]\<rparr>) (Object 0) = 5"
proof -
  let ?s = "(fresh 5 1 2)\<lparr>u64 := (u64 (fresh 5 1 2))(Object 0 := 6)\<rparr>"
  let ?s' = "(fresh 5 1 2)\<lparr>u64 := (u64 (fresh 5 1 2))(Object 0 := 5),
               lock_log := [Acquire 0, Release 0], stores := [(Object 0, 5)]\<rparr>"
  have run: "pg_atomic_compare_exchange_u64_impl ?s 0 (Object 0) 7 = Some (?s', False)"
    by (simp add: compare_exchange_Unlocked fresh_def)
  from compare_exchange_failure [OF run] run show ?thesis
    by (simp add: fresh_def)
qed

section \<open>Fetch and add\<close>

text \<open>
  C3. In every state, whatever the guard is at the call: whenever
  \<^verbatim>\<open>pg_atomic_fetch_add_u64_impl\<close> returns, it has returned the value the cell held and
  left the cell holding that value plus the signed delta, modulo \<open>2 ^ 64\<close>; there is no
  other outcome, overflow included. On a free guard the call does return. The instance
  below it is the spec's example: a cell holding \<open>2 ^ 64 - 1\<close> and a delta of 1 return
  \<open>2 ^ 64 - 1\<close> and leave 0.
\<close>

theorem fetch_add_wraps:
  "(sema s ptr = Unlocked \<longrightarrow>
      (\<exists>s' oldval. pg_atomic_fetch_add_u64_impl s ptr d = Some (s', oldval))) \<and>
   (\<forall>s' oldval. pg_atomic_fetch_add_u64_impl s ptr d = Some (s', oldval) \<longrightarrow>
      oldval = u64 s (Value_of ptr) \<and>
      uint (u64 s' (Value_of ptr)) = (uint (u64 s (Value_of ptr)) + sint d) mod 2 ^ 64)"
proof (intro conjI impI allI)
  assume "sema s ptr = Unlocked"
  then show "\<exists>s' oldval. pg_atomic_fetch_add_u64_impl s ptr d = Some (s', oldval)"
    by (simp add: fetch_add_Unlocked)
next
  fix s' oldval
  assume r: "pg_atomic_fetch_add_u64_impl s ptr d = Some (s', oldval)"
  then have u: "sema s ptr = Unlocked"
    by (rule fetch_add_Some_Unlocked)
  have w: "uint (u64 s (Value_of ptr) + word_of_int (sint d))
          = (uint (u64 s (Value_of ptr)) + sint d) mod 2 ^ 64"
    by (simp only: uint_word_ariths uint_word_of_int mod_add_right_eq) simp
  from r [unfolded fetch_add_Unlocked [OF u]] show "oldval = u64 s (Value_of ptr)"
    by auto
  from r [unfolded fetch_add_Unlocked [OF u]] have "u64 s' (Value_of ptr)
      = u64 s (Value_of ptr) + word_of_int (sint d)"
    by auto
  with w show "uint (u64 s' (Value_of ptr)) = (uint (u64 s (Value_of ptr)) + sint d) mod 2 ^ 64"
    by simp
qed

theorem fetch_add_wraps_witness:
  "sema (fresh 18446744073709551615 1 2) 0 = Unlocked \<and>
   (\<exists>s'. pg_atomic_fetch_add_u64_impl (fresh 18446744073709551615 1 2) 0 1
            = Some (s', 18446744073709551615) \<and> u64 s' (Value_of 0) = 0)"
proof -
  have u: "sema (fresh 18446744073709551615 1 2) 0 = Unlocked"
    by (simp add: fresh_def)
  note c = fetch_add_wraps [of "fresh 18446744073709551615 1 2" 0 1]
  from c u obtain s' oldval where
    r: "pg_atomic_fetch_add_u64_impl (fresh 18446744073709551615 1 2) 0 1 = Some (s', oldval)"
    by blast
  from c r have o: "oldval = u64 (fresh 18446744073709551615 1 2) (Value_of 0)"
    and v: "uint (u64 s' (Value_of 0))
          = (uint (u64 (fresh 18446744073709551615 1 2) (Value_of 0)) + sint (1 :: 64 word)) mod 2 ^ 64"
    by blast+
  from v have "uint (u64 s' (Value_of 0)) = 0"
    by (simp add: fresh_def)
  then have "u64 s' (Value_of 0) = 0"
    by (simp add: uint_0_iff)
  moreover from o have "oldval = 18446744073709551615"
    by (simp add: fresh_def)
  ultimately show ?thesis
    using r u by blast
qed

section \<open>Initialisation\<close>

lemma init_Unlocked:
  "sema (pg_atomic_init_u64_impl s ptr v) ptr = Unlocked"
  by (simp add: pg_atomic_init_u64_impl_def SpinLockInit_def store_u64_def)

lemma init_value:
  "u64 (pg_atomic_init_u64_impl s ptr v) p = (if p = Value_of ptr then v else u64 s p)"
  by (simp add: pg_atomic_init_u64_impl_def SpinLockInit_def store_u64_def)

text \<open>
  C4. \<^verbatim>\<open>pg_atomic_init_u64_impl\<close> leaves the guard free and the cell holding the initial
  value \<open>v\<close>. Right after it, adding zero returns \<open>v\<close>; a compare-exchange whose
  \<^verbatim>\<open>*expected\<close> (an object other than the cell's value) differs from \<open>v\<close> returns false
  and leaves \<open>v\<close> in \<^verbatim>\<open>*expected\<close>; and any compare-exchange that returns false leaves
  \<open>v\<close> in \<^verbatim>\<open>*expected\<close>.
\<close>

theorem init_then_read:
  "sema (pg_atomic_init_u64_impl s ptr v) ptr = Unlocked \<and>
   u64 (pg_atomic_init_u64_impl s ptr v) (Value_of ptr) = v \<and>
   (\<exists>s'. pg_atomic_fetch_add_u64_impl (pg_atomic_init_u64_impl s ptr v) ptr 0 = Some (s', v)) \<and>
   (\<forall>expected newval. expected \<noteq> Value_of ptr \<longrightarrow> u64 s expected \<noteq> v \<longrightarrow>
      (\<exists>s'. pg_atomic_compare_exchange_u64_impl (pg_atomic_init_u64_impl s ptr v) ptr expected newval
               = Some (s', False) \<and> u64 s' expected = v)) \<and>
   (\<forall>expected newval s'.
      pg_atomic_compare_exchange_u64_impl (pg_atomic_init_u64_impl s ptr v) ptr expected newval
        = Some (s', False) \<longrightarrow> u64 s' expected = v)"
  by (auto simp: compare_exchange_Unlocked [OF init_Unlocked] fetch_add_Unlocked [OF init_Unlocked]
      init_Unlocked init_value split: if_splits)

theorem init_then_read_witness:
  "Object 0 \<noteq> Value_of 0 \<and> u64 (fresh 3 1 2) (Object 0) \<noteq> 9 \<and>
   (\<exists>s'. pg_atomic_fetch_add_u64_impl (pg_atomic_init_u64_impl (fresh 3 1 2) 0 9) 0 0 = Some (s', 9)) \<and>
   (\<exists>s'. pg_atomic_compare_exchange_u64_impl (pg_atomic_init_u64_impl (fresh 3 1 2) 0 9) 0 (Object 0) 4
            = Some (s', False) \<and> u64 s' (Object 0) = 9)"
  using init_then_read [of "fresh 3 1 2" 0 9]
  by (simp add: fresh_def)

section \<open>The barriers\<close>

text \<open>
  C5, as the spec has it, makes the system call of \<^verbatim>\<open>pg_spinlock_barrier\<close> target the
  calling process. In a process with identifier 200 whose postmaster is process 100 the
  call goes to process 100.
\<close>

theorem barrier_targets_self_counterexample:
  "target (last (syscalls (pg_spinlock_barrier (\<lambda>pid sig. 0) (fresh 0 100 200))))
     \<noteq> caller_pid (fresh 0 100 200)"
  by (simp add: pg_spinlock_barrier_def kill_def fresh_def)

text \<open>
  C5, amended. \<^verbatim>\<open>pg_spinlock_barrier\<close> issues exactly one system call, and that call
  is \<^verbatim>\<open>kill(PostmasterPid, 0)\<close>: its target is the postmaster process. Whatever the
  operating system answers is dropped: the state after the call is the same for every
  answer. (That this call is a serializing one is the kernel's doing, which the comment
  in the source assumes; the statement is about which call is made, and to whom.)
\<close>

theorem barrier_one_kill:
  "pg_spinlock_barrier os s = s\<lparr>syscalls := syscalls s @ [Kill (PostmasterPid s) 0]\<rparr> \<and>
   pg_spinlock_barrier os s = pg_spinlock_barrier os' s"
  by (simp add: pg_spinlock_barrier_def kill_def)

lemma read_u64_eq:
  "read_u64 s ptr = (if sema s ptr = Unlocked then Some (u64 s (Value_of ptr)) else None)"
  by (cases "sema s ptr") (simp_all add: read_u64_def fetch_add_Unlocked fetch_add_Locked)

text \<open>
  C6. Neither barrier changes memory: after \<^verbatim>\<open>pg_spinlock_barrier\<close> every guard, every
  64-bit object, the globals and the logs of guard operations and of stores are what
  they were, and
  \<^verbatim>\<open>pg_extern_compiler_barrier\<close> returns the very state it was given. A read of any cell
  gives the same result after either barrier as before it.
\<close>

theorem barriers_change_nothing:
  "sema (pg_spinlock_barrier os s) = sema s \<and>
   u64 (pg_spinlock_barrier os s) = u64 s \<and>
   PostmasterPid (pg_spinlock_barrier os s) = PostmasterPid s \<and>
   caller_pid (pg_spinlock_barrier os s) = caller_pid s \<and>
   lock_log (pg_spinlock_barrier os s) = lock_log s \<and>
   stores (pg_spinlock_barrier os s) = stores s \<and>
   read_u64 (pg_spinlock_barrier os s) ptr = read_u64 s ptr \<and>
   pg_extern_compiler_barrier s = s \<and>
   read_u64 (pg_extern_compiler_barrier s) ptr = read_u64 s ptr"
  by (simp add: read_u64_eq pg_spinlock_barrier_def kill_def pg_extern_compiler_barrier_def)

section \<open>The guard\<close>

text \<open>
  C7. Called on a cell whose guard is free, compare-exchange and fetch-add each
  return, with every guard as it was before the call (so this cell's guard is free
  again), having acquired the cell's guard once and released it once, in that order, and
  no other. Initialisation leaves a free guard free and performs no acquire or release.
\<close>

theorem guard_released:
  assumes "sema s ptr = Unlocked"
  shows "(\<exists>s' ret. pg_atomic_compare_exchange_u64_impl s ptr expected newval = Some (s', ret) \<and>
            sema s' = sema s \<and> lock_log s' = lock_log s @ [Acquire ptr, Release ptr]) \<and>
         (\<exists>s' old. pg_atomic_fetch_add_u64_impl s ptr d = Some (s', old) \<and>
            sema s' = sema s \<and> lock_log s' = lock_log s @ [Acquire ptr, Release ptr]) \<and>
         sema (pg_atomic_init_u64_impl s ptr v) = sema s \<and>
         lock_log (pg_atomic_init_u64_impl s ptr v) = lock_log s"
proof -
  have "(sema s)(ptr := Unlocked) = sema s"
    using assms by (simp add: fun_upd_idem)
  then show ?thesis
    by (simp add: compare_exchange_Unlocked [OF assms] fetch_add_Unlocked [OF assms]
        pg_atomic_init_u64_impl_def SpinLockInit_def store_u64_def)
qed

theorem guard_released_witness:
  "sema (fresh 5 1 2) 0 = Unlocked \<and>
   (\<exists>s' ret. pg_atomic_compare_exchange_u64_impl (fresh 5 1 2) 0 (Object 0) 7 = Some (s', ret) \<and>
      sema s' 0 = Unlocked \<and> lock_log s' = [Acquire 0, Release 0]) \<and>
   (\<exists>s' old. pg_atomic_fetch_add_u64_impl (fresh 5 1 2) 0 1 = Some (s', old) \<and>
      sema s' 0 = Unlocked \<and> lock_log s' = [Acquire 0, Release 0])"
proof -
  have u: "sema (fresh 5 1 2) 0 = Unlocked"
    by (simp add: fresh_def)
  from guard_released [OF u, of "Object 0" 7 1 0] u show ?thesis
    by (auto simp: fresh_def)
qed

section \<open>\<^verbatim>\<open>*expected\<close> after a successful compare-exchange\<close>

text \<open>
  C10. Every call that returns has stored the cell's value through \<^verbatim>\<open>expected\<close>, first
  of all its stores and whatever it returns; the store of \<^verbatim>\<open>newval\<close> into the cell
  follows it when the call returns true, and there is no other store. When the call
  returns true, the value stored through \<^verbatim>\<open>expected\<close> is what \<^verbatim>\<open>*expected\<close> held before
  the call, and \<^verbatim>\<open>*expected\<close> holds it after the call: that is for \<^verbatim>\<open>expected\<close> pointing
  at an object of the caller's, as a \<^verbatim>\<open>uint64 *\<close> does unless the caller has cast the
  \<^verbatim>\<open>volatile\<close> qualifier of the cell's own value away.
\<close>

theorem expected_after_success:
  assumes "pg_atomic_compare_exchange_u64_impl s ptr expected newval = Some (s', ret)"
  shows "stores s' = stores s @ (expected, u64 s (Value_of ptr)) #
                       (if ret then [(Value_of ptr, newval)] else []) \<and>
         (ret \<longrightarrow> u64 s (Value_of ptr) = u64 s expected \<and>
                 (expected \<noteq> Value_of ptr \<longrightarrow> u64 s' expected = u64 s expected))"
proof -
  have "sema s ptr = Unlocked"
    using assms by (rule compare_exchange_Some_Unlocked)
  from assms [unfolded compare_exchange_Unlocked [OF this]] show ?thesis
    by (auto split: if_splits)
qed

theorem expected_after_success_witness:
  "pg_atomic_compare_exchange_u64_impl (fresh 5 1 2) 0 (Object 0) 7
     = Some ((fresh 5 1 2)\<lparr>u64 := (u64 (fresh 5 1 2))(Value_of 0 := 7),
               lock_log := [Acquire 0, Release 0],
               stores := [(Object 0, 5), (Value_of 0, 7)]\<rparr>, True) \<and>
   Object 0 \<noteq> Value_of 0 \<and>
   u64 (fresh 5 1 2) (Object 0) = 5 \<and>
   u64 ((fresh 5 1 2)\<lparr>u64 := (u64 (fresh 5 1 2))(Value_of 0 := 7),
               lock_log := [Acquire 0, Release 0],
               stores := [(Object 0, 5), (Value_of 0, 7)]\<rparr>) (Object 0) = 5"
proof -
  let ?s' = "(fresh 5 1 2)\<lparr>u64 := (u64 (fresh 5 1 2))(Value_of 0 := 7),
               lock_log := [Acquire 0, Release 0],
               stores := [(Object 0, 5), (Value_of 0, 7)]\<rparr>"
  have "((u64 (fresh 5 1 2))(Object 0 := 5)) = u64 (fresh 5 1 2)"
    by (simp add: fresh_def fun_upd_idem)
  then have run: "pg_atomic_compare_exchange_u64_impl (fresh 5 1 2) 0 (Object 0) 7 = Some (?s', True)"
    by (simp add: compare_exchange_Unlocked fresh_def)
  have b: "u64 (fresh 5 1 2) (Object 0) = 5"
    by (simp add: fresh_def)
  from expected_after_success [OF run] have "u64 ?s' (Object 0) = u64 (fresh 5 1 2) (Object 0)"
    by simp
  with run b show ?thesis
    by simp
qed

section \<open>Interleaved runs are serial runs\<close>




































end
